theory Spec2Isabelle
  imports Complex_Main "HOL-Library.Word"
begin

section \<open>JavaScript values\<close>

text \<open>
  A JavaScript string is a sequence of UTF-16 code units. String literals of the source
  that are plain ASCII are written \<open>ascii ''...''\<close>; the two system instructions, which
  are Chinese text, are given by their code units.
\<close>

type_synonym js_string = "16 word list"

definition ascii :: "string \<Rightarrow> js_string" where
  "ascii s = map (\<lambda>c. of_nat (of_char c)) s"

text \<open>
  The values that \<open>JSON.parse\<close> produces, together with \<open>undefined\<close> (the value of
  a property that is not there). A number is the decimal that its JSON text denotes; the
  resolvers only copy numbers, they never compute with them. An object lists its own
  properties, each name once.
\<close>

datatype js_value =
    JUndefined
  | JNull
  | JBool bool
  | JNum rat
  | JStr js_string
  | JArr "js_value list"
  | JObj "(js_string \<times> js_value) list"

text \<open>The test \<open>!v\<close> of the source is \<open>\<not> truthy v\<close>.\<close>

fun truthy :: "js_value \<Rightarrow> bool" where
  "truthy JUndefined = False"
| "truthy JNull = False"
| "truthy (JBool b) = b"
| "truthy (JNum n) = (n \<noteq> 0)"
| "truthy (JStr s) = (s \<noteq> [])"
| "truthy (JArr xs) = True"
| "truthy (JObj kvs) = True"

text \<open>
  A string of the source: a literal, or a template literal with one substitution. The
  substitution is rendered by the runtime, so the model keeps the fixed prefix and the
  substituted value apart: \<open>Interp p v\<close> is the prefix \<open>p\<close> followed by \<open>v\<close> as
  a string, \<open>InterpJson p v\<close> is \<open>p\<close> followed by \<open>JSON.stringify(v)\<close>.
\<close>

datatype template =
    Lit js_string
  | Interp js_string js_value
  | InterpJson js_string js_value

text \<open>
  What can be thrown: \<open>new Error(message)\<close>, the \<open>TypeError\<close> of reading a property
  of \<open>undefined\<close> or \<open>null\<close>, and the rejections that the runtime produces
  (a body that is not JSON, a failed connection).
\<close>

datatype js_error =
    Error template
  | TypeError
  | SyntaxError
  | NetworkError

text \<open>
  \<open>v.name\<close>, for a name that no built-in prototype defines; every name the resolvers
  read (\<open>choices\<close>, \<open>message\<close>, \<open>content\<close>, \<open>finish_reason\<close>, \<open>usage\<close>,
  \<open>prompt_tokens\<close>, \<open>completion_tokens\<close>, \<open>total_tokens\<close>) is one.
\<close>

fun get_prop :: "js_value \<Rightarrow> js_string \<Rightarrow> js_error + js_value" where
  "get_prop JUndefined name = Inl TypeError"
| "get_prop JNull name = Inl TypeError"
| "get_prop (JObj kvs) name =
     (case map_of kvs name of None \<Rightarrow> Inr JUndefined | Some v \<Rightarrow> Inr v)"
| "get_prop v name = Inr JUndefined"

text \<open>\<open>v[0]\<close>: the first element of an array, the first code unit of a string.\<close>

fun get_first :: "js_value \<Rightarrow> js_error + js_value" where
  "get_first JUndefined = Inl TypeError"
| "get_first JNull = Inl TypeError"
| "get_first (JArr xs) = (case xs of [] \<Rightarrow> Inr JUndefined | x # _ \<Rightarrow> Inr x)"
| "get_first (JStr s) = (case s of [] \<Rightarrow> Inr JUndefined | c # _ \<Rightarrow> Inr (JStr [c]))"
| "get_first (JObj kvs) =
     (case map_of kvs (ascii ''0'') of None \<Rightarrow> Inr JUndefined | Some v \<Rightarrow> Inr v)"
| "get_first v = Inr JUndefined"

text \<open>Evaluation of \<open>e.name\<close> and \<open>e[0]\<close> where evaluating \<open>e\<close> may already have thrown.\<close>

fun dot :: "js_error + js_value \<Rightarrow> js_string \<Rightarrow> js_error + js_value" where
  "dot (Inl e) name = Inl e"
| "dot (Inr v) name = get_prop v name"

fun first :: "js_error + js_value \<Rightarrow> js_error + js_value" where
  "first (Inl e) = Inl e"
| "first (Inr v) = get_first v"

section \<open>Promises, the upstream call and the diagnostic channel\<close>

text \<open>
  An awaited promise either never settles, rejects, or fulfils. An \<open>async\<close> function is
  modelled by the final state of the promise it returns.
\<close>

datatype 'a promise = Pending | Rejected js_error | Fulfilled 'a

fun await :: "'a promise \<Rightarrow> ('a \<Rightarrow> 'b promise) \<Rightarrow> 'b promise" where
  "await Pending k = Pending"
| "await (Rejected e) k = Rejected e"
| "await (Fulfilled v) k = k v"

fun settle :: "js_error + 'a \<Rightarrow> 'a promise" where
  "settle (Inl e) = Rejected e"
| "settle (Inr v) = Fulfilled v"

text \<open>
  The second argument of \<open>fetch\<close>. The body is the value handed to
  \<open>JSON.stringify\<close>.
\<close>

record request =
  req_url :: js_string
  req_method :: js_string
  req_headers :: "(js_string \<times> template) list"
  req_body :: js_value

text \<open>
  What the resolvers use of a \<open>Response\<close>: its status, which decides \<open>response.ok\<close>,
  and the outcome of \<open>response.json()\<close>.
\<close>

record response =
  status :: nat
  json_body :: "js_value promise"

definition ok :: "response \<Rightarrow> bool" where
  "ok r = (200 \<le> status r \<and> status r \<le> 299)"

type_synonym upstream = "request \<Rightarrow> response promise"

text \<open>
  The observable effects of a resolver, in the order they happen: a call of \<open>fetch\<close>
  with its request, a call of \<open>console.error\<close> with its label and the error logged.
  A resolver is a function of its arguments, its context and the behaviour of the
  upstream; it yields the final state of its promise and the list of its effects.
\<close>

datatype event =
    Fetch request
  | ConsoleError js_string js_error

definition outbound_calls :: "event list \<Rightarrow> request list" where
  "outbound_calls evs = concat (map (\<lambda>ev. case ev of Fetch r \<Rightarrow> [r] | _ \<Rightarrow> []) evs)"

definition logged :: "event list \<Rightarrow> js_error list" where
  "logged evs = concat (map (\<lambda>ev. case ev of ConsoleError _ e \<Rightarrow> [e] | _ \<Rightarrow> []) evs)"

section \<open>The resolvers\<close>

text \<open>
  The context carries the environment of the Worker; \<open>ctx.env.OPENAI_API_KEY\<close> is
  \<open>undefined\<close> when the environment has no such binding.
\<close>

record resolver_context =
  env :: "(js_string \<times> js_value) list"

definition OPENAI_API_KEY :: "resolver_context \<Rightarrow> js_value" where
  "OPENAI_API_KEY ctx =
     (case map_of (env ctx) (ascii ''OPENAI_API_KEY'') of None \<Rightarrow> JUndefined | Some v \<Rightarrow> v)"

definition completions_url :: js_string where
  "completions_url = ascii ''https://api.openai.com/v1/chat/completions''"

definition not_configured :: js_error where
  "not_configured = Error (Lit (ascii ''OpenAI API key is not configured''))"

definition failed_to_get_response :: js_error where
  "failed_to_get_response = Error (Lit (ascii ''Failed to get response from OpenAI''))"

definition openai_headers :: "js_value \<Rightarrow> (js_string \<times> template) list" where
  "openai_headers apiKey =
     [(ascii ''Content-Type'', Lit (ascii ''application/json'')),
      (ascii ''Authorization'', Interp (ascii ''Bearer '') apiKey)]"

text \<open>The \<open>catch\<close> block shared by both resolvers: log, then throw the fixed error.\<close>

fun catch_error :: "js_value promise \<times> event list \<Rightarrow> js_value promise \<times> event list" where
  "catch_error (Rejected error, evs) =
     (Rejected failed_to_get_response,
      evs @ [ConsoleError (ascii ''Error calling OpenAI:'') error])"
| "catch_error (p, evs) = (p, evs)"

subsection \<open>chat\<close>

text \<open>
  \<open>resolvers.Query.chat\<close>. The schema gives \<open>message\<close> the type \<open>String!\<close>.
  \<open>chat_request\<close> is the call of \<open>fetch\<close>, \<open>chat_result\<close> the returned object
  literal, \<open>chat_try\<close> the \<open>try\<close> block, whose first step is the call of
  \<open>fetch\<close>.
\<close>

record chat_args =
  message :: js_string

definition chat_system_content :: js_string where
  "chat_system_content =
     [0x8BF7, 0x7528, 0x4E2D, 0x6587, 0x56DE, 0x590D, 0x7528, 0x6237, 0x7684, 0x6240,
      0x6709, 0x95EE, 0x9898, 0x3002]"

definition chat_request :: "js_string \<Rightarrow> js_value \<Rightarrow> request" where
  "chat_request msg apiKey =
     \<lparr>req_url = completions_url,
      req_method = ascii ''POST'',
      req_headers = openai_headers apiKey,
      req_body = JObj
        [(ascii ''model'', JStr (ascii ''gpt-3.5-turbo'')),
         (ascii ''messages'', JArr
            [JObj [(ascii ''role'', JStr (ascii ''system'')),
                   (ascii ''content'', JStr chat_system_content)],
             JObj [(ascii ''role'', JStr (ascii ''user'')),
                   (ascii ''content'', JStr msg)]]),
         (ascii ''temperature'', JNum (7 / 10))]\<rparr>"

definition chat_result :: "js_value \<Rightarrow> js_error + js_value" where
  "chat_result data =
     (case dot (dot (first (dot (Inr data) (ascii ''choices''))) (ascii ''message''))
             (ascii ''content'') of
        Inl e \<Rightarrow> Inl e
      | Inr content \<Rightarrow> Inr (JObj [(ascii ''text'', content)]))"

definition chat_try :: "js_string \<Rightarrow> js_value \<Rightarrow> upstream \<Rightarrow> js_value promise \<times> event list" where
  "chat_try msg apiKey fetch =
     (let req = chat_request msg apiKey in
      (await (fetch req) (\<lambda>response.
         if \<not> ok response then
           await (json_body response) (\<lambda>error.
             Rejected (Error (InterpJson (ascii ''OpenAI API error: '') error)))
         else
           await (json_body response) (\<lambda>data. settle (chat_result data))),
       [Fetch req]))"

definition chat :: "chat_args \<Rightarrow> resolver_context \<Rightarrow> upstream \<Rightarrow> js_value promise \<times> event list" where
  "chat args ctx fetch =
     (let apiKey = OPENAI_API_KEY ctx in
      if \<not> truthy apiKey then (Rejected not_configured, [])
      else catch_error (chat_try (message args) apiKey fetch))"

subsection \<open>askOpenAI\<close>

text \<open>
  \<open>resolvers.Query.askOpenAI\<close>, with the same structure as \<open>chat\<close>. The schema
  gives \<open>prompt\<close> the type \<open>String!\<close> and \<open>model\<close> the type \<open>String\<close>:
  \<open>model\<close> is a string, \<open>null\<close>, or \<open>undefined\<close> when the query omits it.
\<close>

record ask_args =
  prompt :: js_string
  model :: js_value

text \<open>The default of the destructured parameter applies to \<open>undefined\<close> only.\<close>

definition model_or_default :: "js_value \<Rightarrow> js_value" where
  "model_or_default m = (if m = JUndefined then JStr (ascii ''gpt-3.5-turbo'') else m)"

definition ask_system_content :: js_string where
  "ask_system_content =
     [0x4F60, 0x662F, 0x4E00, 0x4E2A, 0x6709, 0x5E2E, 0x52A9, 0x7684, 0x0041, 0x0049,
      0x52A9, 0x624B, 0x3002, 0x8BF7, 0x76F4, 0x63A5, 0x56DE, 0x7B54, 0x7528, 0x6237,
      0x7684, 0x95EE, 0x9898, 0xFF0C, 0x4E0D, 0x8981, 0x8D28, 0x7591, 0x4ED6, 0x4EEC,
      0x7684, 0x8F93, 0x5165, 0x5185, 0x5BB9, 0x3002, 0x5982, 0x679C, 0x7528, 0x6237,
      0x8F93, 0x5165, 0x4E0D, 0x660E, 0x786E, 0x6216, 0x7B80, 0x77ED, 0xFF0C, 0x5C1D,
      0x8BD5, 0x7406, 0x89E3, 0x5E76, 0x63D0, 0x4F9B, 0x6700, 0x76F8, 0x5173, 0x7684,
      0x56DE, 0x5E94, 0x3002, 0x8BF7, 0x7528, 0x4E2D, 0x6587, 0x56DE, 0x590D, 0x3002]"

definition ask_request :: "js_string \<Rightarrow> js_value \<Rightarrow> js_value \<Rightarrow> request" where
  "ask_request prmpt mdl apiKey =
     \<lparr>req_url = completions_url,
      req_method = ascii ''POST'',
      req_headers = openai_headers apiKey,
      req_body = JObj
        [(ascii ''model'', mdl),
         (ascii ''messages'', JArr
            [JObj [(ascii ''role'', JStr (ascii ''system'')),
                   (ascii ''content'', JStr ask_system_content)],
             JObj [(ascii ''role'', JStr (ascii ''user'')),
                   (ascii ''content'', JStr prmpt)]]),
         (ascii ''temperature'', JNum (7 / 10))]\<rparr>"

text \<open>The object literal is evaluated property by property; the first throw ends it.\<close>

definition ask_result :: "js_value \<Rightarrow> js_value \<Rightarrow> js_error + js_value" where
  "ask_result mdl data =
     (case dot (dot (first (dot (Inr data) (ascii ''choices''))) (ascii ''message''))
             (ascii ''content'') of
        Inl e \<Rightarrow> Inl e
      | Inr content \<Rightarrow>
     (case dot (dot (Inr data) (ascii ''usage'')) (ascii ''prompt_tokens'') of
        Inl e \<Rightarrow> Inl e
      | Inr prompt_tokens \<Rightarrow>
     (case dot (dot (Inr data) (ascii ''usage'')) (ascii ''completion_tokens'') of
        Inl e \<Rightarrow> Inl e
      | Inr completion_tokens \<Rightarrow>
     (case dot (dot (Inr data) (ascii ''usage'')) (ascii ''total_tokens'') of
        Inl e \<Rightarrow> Inl e
      | Inr total_tokens \<Rightarrow>
     (case dot (first (dot (Inr data) (ascii ''choices''))) (ascii ''finish_reason'') of
        Inl e \<Rightarrow> Inl e
      | Inr finish_reason \<Rightarrow>
          Inr (JObj
            [(ascii ''text'', content),
             (ascii ''usage'', JObj
                [(ascii ''promptTokens'', prompt_tokens),
                 (ascii ''completionTokens'', completion_tokens),
                 (ascii ''totalTokens'', total_tokens)]),
             (ascii ''metadata'', JObj
                [(ascii ''model'', mdl),
                 (ascii ''finishReason'', finish_reason)])]))))))"

definition ask_try ::
  "js_string \<Rightarrow> js_value \<Rightarrow> js_value \<Rightarrow> upstream \<Rightarrow> js_value promise \<times> event list" where
  "ask_try prmpt mdl apiKey fetch =
     (let req = ask_request prmpt mdl apiKey in
      (await (fetch req) (\<lambda>response.
         if \<not> ok response then
           await (json_body response) (\<lambda>error.
             Rejected (Error (InterpJson (ascii ''OpenAI API error: '') error)))
         else
           await (json_body response) (\<lambda>data. settle (ask_result mdl data))),
       [Fetch req]))"

definition askOpenAI ::
  "ask_args \<Rightarrow> resolver_context \<Rightarrow> upstream \<Rightarrow> js_value promise \<times> event list" where
  "askOpenAI args ctx fetch =
     (let mdl = model_or_default (model args);
          apiKey = OPENAI_API_KEY ctx in
      if \<not> truthy apiKey then (Rejected not_configured, [])
      else catch_error (ask_try (prompt args) mdl apiKey fetch))"

section \<open>The Workers handler\<close>

record http_request =
  http_method :: js_string
  http_url :: js_string

text \<open>\<open>new Response(body, {status, headers})\<close>; the body \<open>null\<close> is \<open>None\<close>.\<close>

record http_response =
  resp_status :: nat
  resp_body :: "js_string option"
  resp_headers :: "(js_string \<times> js_string) list"

text \<open>
  The GraphQL server is built by a library. The handler is modelled for any behaviour of
  \<open>yoga.fetch\<close>: a function of the request and the context that yields a response and
  the effects of the resolvers it ran.
\<close>

type_synonym yoga = "http_request \<Rightarrow> resolver_context \<Rightarrow> http_response promise \<times> event list"

definition preflight_response :: http_response where
  "preflight_response =
     \<lparr>resp_status = 204,
      resp_body = None,
      resp_headers =
        [(ascii ''Access-Control-Allow-Origin'', ascii ''*''),
         (ascii ''Access-Control-Allow-Methods'', ascii ''GET, POST, OPTIONS''),
         (ascii ''Access-Control-Allow-Headers'',
            ascii ''Content-Type, Authorization, Apollo-Require-Preflight''),
         (ascii ''Access-Control-Max-Age'', ascii ''86400'')]\<rparr>"

definition handler_fetch ::
  "yoga \<Rightarrow> http_request \<Rightarrow> (js_string \<times> js_value) list \<Rightarrow> http_response promise \<times> event list" where
  "handler_fetch yoga_fetch req environment =
     (if http_method req = ascii ''OPTIONS'' then (Fulfilled preflight_response, [])
      else yoga_fetch req \<lparr>env = environment\<rparr>)"

section \<open>Reading results\<close>

text \<open>
  The relation between three token counts that the upstream promises: all three are
  numbers and the third is the sum of the first two. Token counts are integers, on which
  the sum of the model and the sum of JavaScript agree.
\<close>

definition total_is_sum ::
  "js_error + js_value \<Rightarrow> js_error + js_value \<Rightarrow> js_error + js_value \<Rightarrow> bool" where
  "total_is_sum p c t =
     (case (p, c, t) of
        (Inr (JNum a), Inr (JNum b), Inr (JNum s)) \<Rightarrow> s = a + b
      | _ \<Rightarrow> False)"

section \<open>Example inputs\<close>

definition example_context :: resolver_context where
  "example_context = \<lparr>env = [(ascii ''OPENAI_API_KEY'', JStr (ascii ''sk-test''))]\<rparr>"

definition completion_body :: js_value where
  "completion_body = JObj
     [(ascii ''model'', JStr (ascii ''gpt-3.5-turbo-0125'')),
      (ascii ''choices'', JArr
         [JObj [(ascii ''message'', JObj [(ascii ''role'', JStr (ascii ''assistant'')),
                                          (ascii ''content'', JStr (ascii ''hi''))]),
                (ascii ''finish_reason'', JStr (ascii ''stop''))]]),
      (ascii ''usage'', JObj
         [(ascii ''prompt_tokens'', JNum 9),
          (ascii ''completion_tokens'', JNum 12),
          (ascii ''total_tokens'', JNum 21)])]"

definition completion_upstream :: upstream where
  "completion_upstream req = Fulfilled \<lparr>status = 200, json_body = Fulfilled completion_body\<rparr>"

definition rate_limit_body :: js_value where
  "rate_limit_body = JObj
     [(ascii ''error'', JObj [(ascii ''message'', JStr (ascii ''Rate limit reached'')),
                              (ascii ''type'', JStr (ascii ''requests''))])]"

definition rate_limited_upstream :: upstream where
  "rate_limited_upstream req = Fulfilled \<lparr>status = 429, json_body = Fulfilled rate_limit_body\<rparr>"

definition empty_choices_upstream :: upstream where
  "empty_choices_upstream req =
     Fulfilled \<lparr>status = 200, json_body = Fulfilled (JObj [(ascii ''choices'', JArr [])])\<rparr>"

definition idle_yoga :: yoga where
  "idle_yoga req ctx = (Pending, [])"

definition options_request :: http_request where
  "options_request = \<lparr>http_method = ascii ''OPTIONS'', http_url = ascii ''/any/path''\<rparr>"

section \<open>Basic facts\<close>

lemma of_char_less_256: "(of_char c :: nat) < 256"
  by (cases c) simp

lemma code_unit_eq_iff: "((of_nat (of_char c) :: 16 word) = of_nat (of_char d)) = (c = d)"
proof -
  have "take_bit 16 (of_char c :: nat) = of_char c" for c
  proof -
    have "(of_char c :: nat) < 65536"
      using of_char_less_256 [of c] by linarith
    then show ?thesis
      by (simp add: take_bit_nat_eq_self_iff)
  qed
  then show ?thesis
    by (simp add: word_of_nat_eq_iff)
qed

lemma ascii_eq_iff [simp]: "(ascii s = ascii t) = (s = t)"
  unfolding ascii_def
  by (rule inj_map_eq_map) (simp add: inj_on_def code_unit_eq_iff)

lemma ascii_Nil [simp]: "ascii [] = []"
  by (simp add: ascii_def)

lemma ascii_eq_Nil [simp]: "(ascii s = []) = (s = [])"
  by (simp add: ascii_def)

lemma chat_falsy_key:
  "\<not> truthy (OPENAI_API_KEY ctx) \<Longrightarrow> chat args ctx fetch = (Rejected not_configured, [])"
  by (simp add: chat_def)

lemma ask_falsy_key:
  "\<not> truthy (OPENAI_API_KEY ctx) \<Longrightarrow> askOpenAI args ctx fetch = (Rejected not_configured, [])"
  by (simp add: askOpenAI_def)

lemma chat_truthy_key:
  "truthy (OPENAI_API_KEY ctx) \<Longrightarrow>
   chat args ctx fetch = catch_error (chat_try (message args) (OPENAI_API_KEY ctx) fetch)"
  by (simp add: chat_def)

lemma ask_truthy_key:
  "truthy (OPENAI_API_KEY ctx) \<Longrightarrow>
   askOpenAI args ctx fetch =
     catch_error (ask_try (prompt args) (model_or_default (model args)) (OPENAI_API_KEY ctx) fetch)"
  by (simp add: askOpenAI_def)

lemma snd_chat_try: "snd (chat_try msg k fetch) = [Fetch (chat_request msg k)]"
  by (simp add: chat_try_def Let_def)

lemma snd_ask_try: "snd (ask_try p m k fetch) = [Fetch (ask_request p m k)]"
  by (simp add: ask_try_def Let_def)

lemma catch_error_rejected:
  "fst t = Rejected x \<Longrightarrow>
   catch_error t =
     (Rejected failed_to_get_response, snd t @ [ConsoleError (ascii ''Error calling OpenAI:'') x])"
  by (cases t) simp

lemma fst_catch_error_rejected:
  "fst (catch_error t) = Rejected e \<Longrightarrow> e = failed_to_get_response"
  by (cases t; cases "fst t") auto

lemma outbound_calls_catch_error:
  "outbound_calls (snd (catch_error t)) = outbound_calls (snd t)"
  by (cases t; cases "fst t") (auto simp: outbound_calls_def)

lemma chat_outbound_calls:
  "truthy (OPENAI_API_KEY ctx) \<Longrightarrow>
   outbound_calls (snd (chat args ctx fetch)) = [chat_request (message args) (OPENAI_API_KEY ctx)]"
proof -
  assume "truthy (OPENAI_API_KEY ctx)"
  then have "outbound_calls (snd (chat args ctx fetch)) =
      outbound_calls [Fetch (chat_request (message args) (OPENAI_API_KEY ctx))]"
    by (simp add: chat_truthy_key outbound_calls_catch_error snd_chat_try)
  then show ?thesis
    by (simp add: outbound_calls_def)
qed

lemma ask_outbound_calls:
  "truthy (OPENAI_API_KEY ctx) \<Longrightarrow>
   outbound_calls (snd (askOpenAI args ctx fetch)) =
     [ask_request (prompt args) (model_or_default (model args)) (OPENAI_API_KEY ctx)]"
proof -
  assume "truthy (OPENAI_API_KEY ctx)"
  then have "outbound_calls (snd (askOpenAI args ctx fetch)) =
      outbound_calls
        [Fetch (ask_request (prompt args) (model_or_default (model args)) (OPENAI_API_KEY ctx))]"
    by (simp add: ask_truthy_key outbound_calls_catch_error snd_ask_try)
  then show ?thesis
    by (simp add: outbound_calls_def)
qed

text \<open>The three kinds of failure inside the \<open>try\<close> block of \<open>chat\<close>.\<close>

lemma chat_try_network_failure:
  "fetch (chat_request msg k) = Rejected x \<Longrightarrow> fst (chat_try msg k fetch) = Rejected x"
  by (simp add: chat_try_def Let_def)

lemma chat_try_malformed_body:
  "fetch (chat_request msg k) = Fulfilled response \<Longrightarrow> json_body response = Rejected x \<Longrightarrow>
   fst (chat_try msg k fetch) = Rejected x"
  by (simp add: chat_try_def Let_def)

lemma chat_try_no_choices:
  "fetch (chat_request msg k) = Fulfilled response \<Longrightarrow> ok response \<Longrightarrow>
   json_body response = Fulfilled (JObj [(ascii ''choices'', JArr [])]) \<Longrightarrow>
   fst (chat_try msg k fetch) = Rejected TypeError"
  by (simp add: chat_try_def chat_result_def Let_def)

text \<open>The same three kinds of failure inside the \<open>try\<close> block of \<open>askOpenAI\<close>.\<close>

lemma ask_try_network_failure:
  "fetch (ask_request p m k) = Rejected x \<Longrightarrow> fst (ask_try p m k fetch) = Rejected x"
  by (simp add: ask_try_def Let_def)

lemma ask_try_malformed_body:
  "fetch (ask_request p m k) = Fulfilled response \<Longrightarrow> json_body response = Rejected x \<Longrightarrow>
   fst (ask_try p m k fetch) = Rejected x"
  by (simp add: ask_try_def Let_def)

lemma ask_try_no_choices:
  "fetch (ask_request p m k) = Fulfilled response \<Longrightarrow> ok response \<Longrightarrow>
   json_body response = Fulfilled (JObj [(ascii ''choices'', JArr [])]) \<Longrightarrow>
   fst (ask_try p m k fetch) = Rejected TypeError"
  by (simp add: ask_try_def ask_result_def Let_def)

text \<open>A fulfilled \<open>askOpenAI\<close> went through every step of the \<open>try\<close> block.\<close>

lemma ask_fulfilledE:
  assumes "fst (askOpenAI args ctx fetch) = Fulfilled result"
  obtains response data where
    "truthy (OPENAI_API_KEY ctx)"
    "fetch (ask_request (prompt args) (model_or_default (model args)) (OPENAI_API_KEY ctx))
       = Fulfilled response"
    "ok response"
    "json_body response = Fulfilled data"
    "ask_result (model_or_default (model args)) data = Inr result"
proof -
  let ?key = "OPENAI_API_KEY ctx"
  let ?mdl = "model_or_default (model args)"
  let ?req = "ask_request (prompt args) ?mdl ?key"
  have key: "truthy ?key"
    using assms by (auto simp: askOpenAI_def Let_def split: if_splits)
  then have run: "fst (catch_error (ask_try (prompt args) ?mdl ?key fetch)) = Fulfilled result"
    using assms by (simp add: ask_truthy_key)
  have body: "fst (ask_try (prompt args) ?mdl ?key fetch) = Fulfilled result"
    using run
    by (cases "ask_try (prompt args) ?mdl ?key fetch";
        cases "fst (ask_try (prompt args) ?mdl ?key fetch)") auto
  then obtain response where resp: "fetch ?req = Fulfilled response"
    by (cases "fetch ?req") (auto simp: ask_try_def Let_def)
  with body have is_ok: "ok response"
    by (cases "json_body response") (auto simp: ask_try_def Let_def split: if_splits)
  with body resp obtain data where data: "json_body response = Fulfilled data"
    by (cases "json_body response") (auto simp: ask_try_def Let_def)
  with body resp is_ok have "ask_result ?mdl data = Inr result"
    by (cases "ask_result ?mdl data") (auto simp: ask_try_def Let_def)
  with key resp is_ok data show thesis
    by (rule that)
qed

lemma ask_result_shape:
  assumes "ask_result mdl data = Inr result"
  obtains content p c t fr where
    "dot (dot (first (dot (Inr data) (ascii ''choices''))) (ascii ''message'')) (ascii ''content'')
       = Inr content"
    "dot (dot (Inr data) (ascii ''usage'')) (ascii ''prompt_tokens'') = Inr p"
    "dot (dot (Inr data) (ascii ''usage'')) (ascii ''completion_tokens'') = Inr c"
    "dot (dot (Inr data) (ascii ''usage'')) (ascii ''total_tokens'') = Inr t"
    "dot (first (dot (Inr data) (ascii ''choices''))) (ascii ''finish_reason'') = Inr fr"
    "result = JObj
       [(ascii ''text'', content),
        (ascii ''usage'', JObj
           [(ascii ''promptTokens'', p),
            (ascii ''completionTokens'', c),
            (ascii ''totalTokens'', t)]),
        (ascii ''metadata'', JObj
           [(ascii ''model'', mdl),
            (ascii ''finishReason'', fr)])]"
  using assms unfolding ask_result_def
  by (auto split: sum.splits)

section \<open>The chat resolver\<close>

text \<open>
  C1. With the credential present, an upstream response of success status whose JSON body
  has a first choice, with \<open>content\<close> the value of that choice's
  \<open>message.content\<close>: \<open>chat\<close> returns the object whose only property is
  \<open>text\<close>, and \<open>text\<close> is \<open>content\<close>. This holds for every message, empty or
  not.
\<close>

theorem chat_returns_first_choice_text:
  assumes "truthy (OPENAI_API_KEY ctx)"
    and "fetch (chat_request (message args) (OPENAI_API_KEY ctx)) = Fulfilled response"
    and "ok response"
    and "json_body response = Fulfilled data"
    and "first (dot (Inr data) (ascii ''choices'')) = Inr choice"
    and "dot (dot (Inr choice) (ascii ''message'')) (ascii ''content'') = Inr content"
  shows "fst (chat args ctx fetch) = Fulfilled (JObj [(ascii ''text'', content)])"
  using assms by (simp add: chat_def chat_try_def chat_result_def Let_def)

theorem chat_returns_first_choice_text_witness:
  "truthy (OPENAI_API_KEY example_context)
   \<and> completion_upstream
        (chat_request (message \<lparr>message = ascii ''hello''\<rparr>) (OPENAI_API_KEY example_context))
      = Fulfilled \<lparr>status = 200, json_body = Fulfilled completion_body\<rparr>
   \<and> ok \<lparr>status = 200, json_body = Fulfilled completion_body\<rparr>
   \<and> fst (chat \<lparr>message = ascii ''hello''\<rparr> example_context completion_upstream)
      = Fulfilled (JObj [(ascii ''text'', JStr (ascii ''hi''))])"
proof -
  let ?choice = "JObj [(ascii ''message'', JObj [(ascii ''role'', JStr (ascii ''assistant'')),
                                                 (ascii ''content'', JStr (ascii ''hi''))]),
                       (ascii ''finish_reason'', JStr (ascii ''stop''))]"
  have key: "truthy (OPENAI_API_KEY example_context)"
    by (simp add: OPENAI_API_KEY_def example_context_def)
  have resp: "completion_upstream
        (chat_request (message \<lparr>message = ascii ''hello''\<rparr>) (OPENAI_API_KEY example_context))
      = Fulfilled \<lparr>status = 200, json_body = Fulfilled completion_body\<rparr>"
    by (simp add: completion_upstream_def)
  have is_ok: "ok \<lparr>status = 200, json_body = Fulfilled completion_body\<rparr>"
    by (simp add: ok_def)
  have body: "json_body \<lparr>status = 200, json_body = Fulfilled completion_body\<rparr>
      = Fulfilled completion_body"
    by simp
  have choice: "first (dot (Inr completion_body) (ascii ''choices'')) = Inr ?choice"
    by (simp add: completion_body_def)
  have content: "dot (dot (Inr ?choice) (ascii ''message'')) (ascii ''content'')
      = Inr (JStr (ascii ''hi''))"
    by simp
  show ?thesis
    using key resp is_ok
      chat_returns_first_choice_text [where ctx = example_context
        and fetch = completion_upstream and args = "\<lparr>message = ascii ''hello''\<rparr>",
        OF key resp is_ok body choice content]
    by simp
qed

text \<open>
  C7. With the credential present, \<open>chat\<close> makes exactly one outbound call, whatever
  the upstream does: a POST to the chat-completion endpoint over HTTPS, with the
  credential after \<open>Bearer\<close> in the \<open>Authorization\<close> header, and a body of the fixed
  model, the two messages (the fixed system instruction, then the user's message) and
  the temperature 0.7.
\<close>

theorem chat_outbound_request:
  assumes "truthy (OPENAI_API_KEY ctx)"
  shows "outbound_calls (snd (chat args ctx fetch)) =
     [\<lparr>req_url = ascii ''https://api.openai.com/v1/chat/completions'',
       req_method = ascii ''POST'',
       req_headers =
         [(ascii ''Content-Type'', Lit (ascii ''application/json'')),
          (ascii ''Authorization'', Interp (ascii ''Bearer '') (OPENAI_API_KEY ctx))],
       req_body = JObj
         [(ascii ''model'', JStr (ascii ''gpt-3.5-turbo'')),
          (ascii ''messages'', JArr
             [JObj [(ascii ''role'', JStr (ascii ''system'')),
                    (ascii ''content'', JStr chat_system_content)],
              JObj [(ascii ''role'', JStr (ascii ''user'')),
                    (ascii ''content'', JStr (message args))]]),
          (ascii ''temperature'', JNum (7 / 10))]\<rparr>]"
  using assms
  by (simp add: chat_outbound_calls chat_request_def completions_url_def openai_headers_def)

theorem chat_outbound_request_witness:
  "truthy (OPENAI_API_KEY example_context)
   \<and> outbound_calls (snd (chat \<lparr>message = ascii ''hello''\<rparr> example_context rate_limited_upstream)) =
     [\<lparr>req_url = ascii ''https://api.openai.com/v1/chat/completions'',
       req_method = ascii ''POST'',
       req_headers =
         [(ascii ''Content-Type'', Lit (ascii ''application/json'')),
          (ascii ''Authorization'', Interp (ascii ''Bearer '') (JStr (ascii ''sk-test'')))],
       req_body = JObj
         [(ascii ''model'', JStr (ascii ''gpt-3.5-turbo'')),
          (ascii ''messages'', JArr
             [JObj [(ascii ''role'', JStr (ascii ''system'')),
                    (ascii ''content'', JStr chat_system_content)],
              JObj [(ascii ''role'', JStr (ascii ''user'')),
                    (ascii ''content'', JStr (ascii ''hello''))]]),
          (ascii ''temperature'', JNum (7 / 10))]\<rparr>]"
proof -
  have key: "truthy (OPENAI_API_KEY example_context)"
    by (simp add: OPENAI_API_KEY_def example_context_def)
  have "OPENAI_API_KEY example_context = JStr (ascii ''sk-test'')"
    by (simp add: OPENAI_API_KEY_def example_context_def)
  then show ?thesis
    using key
      chat_outbound_request [OF key, of "\<lparr>message = ascii ''hello''\<rparr>" rate_limited_upstream]
    by simp
qed

section \<open>The credential check\<close>

text \<open>
  C2. When the environment has no \<open>OPENAI_API_KEY\<close>, both resolvers fail with the
  error whose message is \<open>OpenAI API key is not configured\<close>, and neither makes an
  outbound call.
\<close>

theorem missing_api_key_is_configuration_error:
  assumes "map_of (env ctx) (ascii ''OPENAI_API_KEY'') = None"
  shows "fst (chat cargs ctx fetch)
           = Rejected (Error (Lit (ascii ''OpenAI API key is not configured'')))
       \<and> outbound_calls (snd (chat cargs ctx fetch)) = []
       \<and> fst (askOpenAI aargs ctx fetch)
           = Rejected (Error (Lit (ascii ''OpenAI API key is not configured'')))
       \<and> outbound_calls (snd (askOpenAI aargs ctx fetch)) = []"
proof -
  from assms have "\<not> truthy (OPENAI_API_KEY ctx)"
    by (simp add: OPENAI_API_KEY_def)
  then show ?thesis
    by (simp add: chat_falsy_key ask_falsy_key not_configured_def outbound_calls_def)
qed

theorem missing_api_key_is_configuration_error_witness:
  "map_of (env \<lparr>env = []\<rparr>) (ascii ''OPENAI_API_KEY'') = None
   \<and> fst (chat \<lparr>message = ascii ''hello''\<rparr> \<lparr>env = []\<rparr> completion_upstream)
       = Rejected (Error (Lit (ascii ''OpenAI API key is not configured'')))
   \<and> outbound_calls (snd (chat \<lparr>message = ascii ''hello''\<rparr> \<lparr>env = []\<rparr> completion_upstream)) = []
   \<and> fst (askOpenAI \<lparr>prompt = ascii ''hello'', model = JUndefined\<rparr> \<lparr>env = []\<rparr>
            completion_upstream)
       = Rejected (Error (Lit (ascii ''OpenAI API key is not configured'')))
   \<and> outbound_calls (snd (askOpenAI \<lparr>prompt = ascii ''hello'', model = JUndefined\<rparr> \<lparr>env = []\<rparr>
            completion_upstream)) = []"
proof -
  have absent: "map_of (env \<lparr>env = []\<rparr>) (ascii ''OPENAI_API_KEY'') = None"
    by simp
  show ?thesis
    using absent
      missing_api_key_is_configuration_error [OF absent,
        of "\<lparr>message = ascii ''hello''\<rparr>" completion_upstream
           "\<lparr>prompt = ascii ''hello'', model = JUndefined\<rparr>"]
    by simp
qed

text \<open>
  C9. The check is falsiness: with a key that is present but falsy (the empty string,
  \<open>null\<close>, \<open>false\<close>, 0), both resolvers fail with the configuration error and have no
  effect at all, so no outbound call.
\<close>

theorem falsy_api_key_is_configuration_error:
  assumes "\<not> truthy (OPENAI_API_KEY ctx)"
  shows "chat cargs ctx fetch
           = (Rejected (Error (Lit (ascii ''OpenAI API key is not configured''))), [])
       \<and> askOpenAI aargs ctx fetch
           = (Rejected (Error (Lit (ascii ''OpenAI API key is not configured''))), [])"
  using assms by (simp add: chat_falsy_key ask_falsy_key not_configured_def)

theorem falsy_api_key_is_configuration_error_witness:
  "map_of (env \<lparr>env = [(ascii ''OPENAI_API_KEY'', JStr [])]\<rparr>) (ascii ''OPENAI_API_KEY'')
     = Some (JStr [])
   \<and> \<not> truthy (OPENAI_API_KEY \<lparr>env = [(ascii ''OPENAI_API_KEY'', JStr [])]\<rparr>)
   \<and> chat \<lparr>message = ascii ''hello''\<rparr> \<lparr>env = [(ascii ''OPENAI_API_KEY'', JStr [])]\<rparr>
        completion_upstream
       = (Rejected (Error (Lit (ascii ''OpenAI API key is not configured''))), [])
   \<and> askOpenAI \<lparr>prompt = ascii ''hello'', model = JUndefined\<rparr>
        \<lparr>env = [(ascii ''OPENAI_API_KEY'', JStr [])]\<rparr> completion_upstream
       = (Rejected (Error (Lit (ascii ''OpenAI API key is not configured''))), [])"
proof -
  have falsy: "\<not> truthy (OPENAI_API_KEY \<lparr>env = [(ascii ''OPENAI_API_KEY'', JStr [])]\<rparr>)"
    by (simp add: OPENAI_API_KEY_def)
  show ?thesis
    using falsy
      falsy_api_key_is_configuration_error [OF falsy,
        of "\<lparr>message = ascii ''hello''\<rparr>" completion_upstream
           "\<lparr>prompt = ascii ''hello'', model = JUndefined\<rparr>"]
    by simp
qed

section \<open>Failures after the credential check\<close>

text \<open>
  C3. With the credential present, when the upstream answers with a non-success status and
  a JSON error body, either resolver fails with exactly the fixed error
  \<open>Failed to get response from OpenAI\<close>, and the diagnostic channel receives one
  entry: the error built from the upstream payload.
\<close>

theorem upstream_failure_is_wrapped_and_logged_once:
  assumes "truthy (OPENAI_API_KEY ctx)"
    and "\<not> ok response"
    and "json_body response = Fulfilled error"
  shows "(fetch (chat_request (message cargs) (OPENAI_API_KEY ctx)) = Fulfilled response \<longrightarrow>
            fst (chat cargs ctx fetch)
              = Rejected (Error (Lit (ascii ''Failed to get response from OpenAI''))) \<and>
            logged (snd (chat cargs ctx fetch))
              = [Error (InterpJson (ascii ''OpenAI API error: '') error)])
       \<and> (fetch (ask_request (prompt aargs) (model_or_default (model aargs)) (OPENAI_API_KEY ctx))
              = Fulfilled response \<longrightarrow>
            fst (askOpenAI aargs ctx fetch)
              = Rejected (Error (Lit (ascii ''Failed to get response from OpenAI''))) \<and>
            logged (snd (askOpenAI aargs ctx fetch))
              = [Error (InterpJson (ascii ''OpenAI API error: '') error)])"
  using assms
  by (simp add: chat_def chat_try_def askOpenAI_def ask_try_def Let_def
      failed_to_get_response_def logged_def)

theorem upstream_failure_is_wrapped_and_logged_once_witness:
  "truthy (OPENAI_API_KEY example_context)
   \<and> \<not> ok \<lparr>status = 429, json_body = Fulfilled rate_limit_body\<rparr>
   \<and> fst (chat \<lparr>message = ascii ''hello''\<rparr> example_context rate_limited_upstream)
       = Rejected (Error (Lit (ascii ''Failed to get response from OpenAI'')))
   \<and> logged (snd (chat \<lparr>message = ascii ''hello''\<rparr> example_context rate_limited_upstream))
       = [Error (InterpJson (ascii ''OpenAI API error: '') rate_limit_body)]
   \<and> fst (askOpenAI \<lparr>prompt = ascii ''hello'', model = JUndefined\<rparr> example_context
            rate_limited_upstream)
       = Rejected (Error (Lit (ascii ''Failed to get response from OpenAI'')))
   \<and> logged (snd (askOpenAI \<lparr>prompt = ascii ''hello'', model = JUndefined\<rparr> example_context
            rate_limited_upstream))
       = [Error (InterpJson (ascii ''OpenAI API error: '') rate_limit_body)]"
proof -
  have key: "truthy (OPENAI_API_KEY example_context)"
    by (simp add: OPENAI_API_KEY_def example_context_def)
  have not_ok: "\<not> ok \<lparr>status = 429, json_body = Fulfilled rate_limit_body\<rparr>"
    by (simp add: ok_def)
  have body: "json_body \<lparr>status = 429, json_body = Fulfilled rate_limit_body\<rparr>
      = Fulfilled rate_limit_body"
    by simp
  show ?thesis
    using key not_ok
      upstream_failure_is_wrapped_and_logged_once [where fetch = rate_limited_upstream
        and cargs = "\<lparr>message = ascii ''hello''\<rparr>"
        and aargs = "\<lparr>prompt = ascii ''hello'', model = JUndefined\<rparr>",
        OF key not_ok body]
    by (simp add: rate_limited_upstream_def)
qed

text \<open>
  C8. With the credential present, whatever is thrown inside the \<open>try\<close> block of a
  resolver (a rejected \<open>fetch\<close>, a body that is not JSON, a read of a missing field) is
  caught: the resolver logs it and fails with the fixed error. So a resolver that fails
  after the credential check fails with the fixed error and with nothing else.
\<close>

theorem resolver_body_errors_are_wrapped:
  assumes "truthy (OPENAI_API_KEY ctx)"
  shows "(\<forall>x. fst (chat_try (message cargs) (OPENAI_API_KEY ctx) fetch) = Rejected x \<longrightarrow>
            chat cargs ctx fetch =
              (Rejected (Error (Lit (ascii ''Failed to get response from OpenAI''))),
               [Fetch (chat_request (message cargs) (OPENAI_API_KEY ctx)),
                ConsoleError (ascii ''Error calling OpenAI:'') x]))
       \<and> (\<forall>x. fst (ask_try (prompt aargs) (model_or_default (model aargs)) (OPENAI_API_KEY ctx)
                      fetch) = Rejected x \<longrightarrow>
            askOpenAI aargs ctx fetch =
              (Rejected (Error (Lit (ascii ''Failed to get response from OpenAI''))),
               [Fetch (ask_request (prompt aargs) (model_or_default (model aargs))
                         (OPENAI_API_KEY ctx)),
                ConsoleError (ascii ''Error calling OpenAI:'') x]))
       \<and> (\<forall>e. fst (chat cargs ctx fetch) = Rejected e \<longrightarrow>
            e = Error (Lit (ascii ''Failed to get response from OpenAI'')))
       \<and> (\<forall>e. fst (askOpenAI aargs ctx fetch) = Rejected e \<longrightarrow>
            e = Error (Lit (ascii ''Failed to get response from OpenAI'')))"
proof (intro conjI allI impI)
  fix x
  assume "fst (chat_try (message cargs) (OPENAI_API_KEY ctx) fetch) = Rejected x"
  then have "catch_error (chat_try (message cargs) (OPENAI_API_KEY ctx) fetch) =
      (Rejected failed_to_get_response,
       snd (chat_try (message cargs) (OPENAI_API_KEY ctx) fetch)
         @ [ConsoleError (ascii ''Error calling OpenAI:'') x])"
    by (rule catch_error_rejected)
  with assms show "chat cargs ctx fetch =
      (Rejected (Error (Lit (ascii ''Failed to get response from OpenAI''))),
       [Fetch (chat_request (message cargs) (OPENAI_API_KEY ctx)),
        ConsoleError (ascii ''Error calling OpenAI:'') x])"
    by (simp add: chat_truthy_key snd_chat_try failed_to_get_response_def)
next
  fix x
  assume "fst (ask_try (prompt aargs) (model_or_default (model aargs)) (OPENAI_API_KEY ctx)
      fetch) = Rejected x"
  then have "catch_error (ask_try (prompt aargs) (model_or_default (model aargs))
      (OPENAI_API_KEY ctx) fetch) =
      (Rejected failed_to_get_response,
       snd (ask_try (prompt aargs) (model_or_default (model aargs)) (OPENAI_API_KEY ctx) fetch)
         @ [ConsoleError (ascii ''Error calling OpenAI:'') x])"
    by (rule catch_error_rejected)
  with assms show "askOpenAI aargs ctx fetch =
      (Rejected (Error (Lit (ascii ''Failed to get response from OpenAI''))),
       [Fetch (ask_request (prompt aargs) (model_or_default (model aargs)) (OPENAI_API_KEY ctx)),
        ConsoleError (ascii ''Error calling OpenAI:'') x])"
    by (simp add: ask_truthy_key snd_ask_try failed_to_get_response_def)
next
  fix e
  assume "fst (chat cargs ctx fetch) = Rejected e"
  with assms have "e = failed_to_get_response"
    by (simp add: chat_truthy_key fst_catch_error_rejected)
  then show "e = Error (Lit (ascii ''Failed to get response from OpenAI''))"
    by (simp add: failed_to_get_response_def)
next
  fix e
  assume "fst (askOpenAI aargs ctx fetch) = Rejected e"
  with assms have "e = failed_to_get_response"
    by (simp add: ask_truthy_key fst_catch_error_rejected)
  then show "e = Error (Lit (ascii ''Failed to get response from OpenAI''))"
    by (simp add: failed_to_get_response_def)
qed

theorem resolver_body_errors_are_wrapped_witness:
  "truthy (OPENAI_API_KEY example_context)
   \<and> fst (chat_try (message \<lparr>message = ascii ''hello''\<rparr>) (OPENAI_API_KEY example_context)
            empty_choices_upstream) = Rejected TypeError
   \<and> fst (ask_try (prompt \<lparr>prompt = ascii ''hello'', model = JUndefined\<rparr>)
            (model_or_default (model \<lparr>prompt = ascii ''hello'', model = JUndefined\<rparr>))
            (OPENAI_API_KEY example_context) empty_choices_upstream) = Rejected TypeError
   \<and> chat \<lparr>message = ascii ''hello''\<rparr> example_context empty_choices_upstream =
       (Rejected (Error (Lit (ascii ''Failed to get response from OpenAI''))),
        [Fetch (chat_request (ascii ''hello'') (JStr (ascii ''sk-test''))),
         ConsoleError (ascii ''Error calling OpenAI:'') TypeError])
   \<and> askOpenAI \<lparr>prompt = ascii ''hello'', model = JUndefined\<rparr> example_context
        empty_choices_upstream =
       (Rejected (Error (Lit (ascii ''Failed to get response from OpenAI''))),
        [Fetch (ask_request (ascii ''hello'') (JStr (ascii ''gpt-3.5-turbo''))
                  (JStr (ascii ''sk-test''))),
         ConsoleError (ascii ''Error calling OpenAI:'') TypeError])"
proof -
  have key: "truthy (OPENAI_API_KEY example_context)"
    by (simp add: OPENAI_API_KEY_def example_context_def)
  have key_value: "OPENAI_API_KEY example_context = JStr (ascii ''sk-test'')"
    by (simp add: OPENAI_API_KEY_def example_context_def)
  have chat_throws:
    "fst (chat_try (message \<lparr>message = ascii ''hello''\<rparr>) (OPENAI_API_KEY example_context)
            empty_choices_upstream) = Rejected TypeError"
    by (simp add: chat_try_def chat_result_def empty_choices_upstream_def ok_def Let_def)
  have ask_throws:
    "fst (ask_try (prompt \<lparr>prompt = ascii ''hello'', model = JUndefined\<rparr>)
            (model_or_default (model \<lparr>prompt = ascii ''hello'', model = JUndefined\<rparr>))
            (OPENAI_API_KEY example_context) empty_choices_upstream) = Rejected TypeError"
    by (simp add: ask_try_def ask_result_def empty_choices_upstream_def ok_def Let_def)
  note wrapped = resolver_body_errors_are_wrapped [OF key,
        of "\<lparr>message = ascii ''hello''\<rparr>" empty_choices_upstream
           "\<lparr>prompt = ascii ''hello'', model = JUndefined\<rparr>"]
  note chat_fails = wrapped [THEN conjunct1, THEN spec, THEN mp, OF chat_throws]
  note ask_fails = wrapped [THEN conjunct2, THEN conjunct1, THEN spec, THEN mp, OF ask_throws]
  show ?thesis
    using key chat_throws ask_throws chat_fails ask_fails
    by (simp add: key_value model_or_default_def)
qed

section \<open>The outbound requests of both resolvers\<close>

text \<open>
  C10. With the credential present, each resolver makes one outbound call whose
  \<open>messages\<close> list has exactly two elements, the second being the user-role message
  whose content is the text the caller supplied, unchanged. Both calls go to the same
  endpoint and carry the temperature 0.7.
\<close>

theorem user_text_is_sent_verbatim:
  assumes "truthy (OPENAI_API_KEY ctx)"
  shows "\<exists>c a sys_c sys_a.
      outbound_calls (snd (chat cargs ctx fetch)) = [c] \<and>
      outbound_calls (snd (askOpenAI aargs ctx fetch')) = [a] \<and>
      get_prop (req_body c) (ascii ''messages'') =
        Inr (JArr [sys_c, JObj [(ascii ''role'', JStr (ascii ''user'')),
                                (ascii ''content'', JStr (message cargs))]]) \<and>
      get_prop (req_body a) (ascii ''messages'') =
        Inr (JArr [sys_a, JObj [(ascii ''role'', JStr (ascii ''user'')),
                                (ascii ''content'', JStr (prompt aargs))]]) \<and>
      req_url c = ascii ''https://api.openai.com/v1/chat/completions'' \<and>
      req_url a = req_url c \<and>
      get_prop (req_body c) (ascii ''temperature'') = Inr (JNum (7 / 10)) \<and>
      get_prop (req_body a) (ascii ''temperature'') = Inr (JNum (7 / 10))"
proof (intro exI conjI)
  show "outbound_calls (snd (chat cargs ctx fetch))
      = [chat_request (message cargs) (OPENAI_API_KEY ctx)]"
    using assms by (rule chat_outbound_calls)
  show "outbound_calls (snd (askOpenAI aargs ctx fetch'))
      = [ask_request (prompt aargs) (model_or_default (model aargs)) (OPENAI_API_KEY ctx)]"
    using assms by (rule ask_outbound_calls)
  show "get_prop (req_body (chat_request (message cargs) (OPENAI_API_KEY ctx)))
        (ascii ''messages'') =
      Inr (JArr [JObj [(ascii ''role'', JStr (ascii ''system'')),
                       (ascii ''content'', JStr chat_system_content)],
                 JObj [(ascii ''role'', JStr (ascii ''user'')),
                       (ascii ''content'', JStr (message cargs))]])"
    by (simp add: chat_request_def)
  show "get_prop (req_body (ask_request (prompt aargs) (model_or_default (model aargs))
        (OPENAI_API_KEY ctx))) (ascii ''messages'') =
      Inr (JArr [JObj [(ascii ''role'', JStr (ascii ''system'')),
                       (ascii ''content'', JStr ask_system_content)],
                 JObj [(ascii ''role'', JStr (ascii ''user'')),
                       (ascii ''content'', JStr (prompt aargs))]])"
    by (simp add: ask_request_def)
  show "req_url (chat_request (message cargs) (OPENAI_API_KEY ctx))
      = ascii ''https://api.openai.com/v1/chat/completions''"
    by (simp add: chat_request_def completions_url_def)
  show "req_url (ask_request (prompt aargs) (model_or_default (model aargs)) (OPENAI_API_KEY ctx))
      = req_url (chat_request (message cargs) (OPENAI_API_KEY ctx))"
    by (simp add: chat_request_def ask_request_def)
  show "get_prop (req_body (chat_request (message cargs) (OPENAI_API_KEY ctx)))
        (ascii ''temperature'') = Inr (JNum (7 / 10))"
    by (simp add: chat_request_def)
  show "get_prop (req_body (ask_request (prompt aargs) (model_or_default (model aargs))
        (OPENAI_API_KEY ctx))) (ascii ''temperature'') = Inr (JNum (7 / 10))"
    by (simp add: ask_request_def)
qed

theorem user_text_is_sent_verbatim_witness:
  "truthy (OPENAI_API_KEY example_context)
   \<and> (\<exists>c a sys_c sys_a.
      outbound_calls (snd (chat \<lparr>message = ascii ''2 + 2?''\<rparr> example_context
        completion_upstream)) = [c] \<and>
      outbound_calls (snd (askOpenAI \<lparr>prompt = ascii ''why?'', model = JStr (ascii ''gpt-4'')\<rparr>
        example_context rate_limited_upstream)) = [a] \<and>
      get_prop (req_body c) (ascii ''messages'') =
        Inr (JArr [sys_c, JObj [(ascii ''role'', JStr (ascii ''user'')),
                                (ascii ''content'', JStr (ascii ''2 + 2?''))]]) \<and>
      get_prop (req_body a) (ascii ''messages'') =
        Inr (JArr [sys_a, JObj [(ascii ''role'', JStr (ascii ''user'')),
                                (ascii ''content'', JStr (ascii ''why?''))]]) \<and>
      req_url c = ascii ''https://api.openai.com/v1/chat/completions'' \<and>
      req_url a = req_url c \<and>
      get_prop (req_body c) (ascii ''temperature'') = Inr (JNum (7 / 10)) \<and>
      get_prop (req_body a) (ascii ''temperature'') = Inr (JNum (7 / 10)))"
proof -
  have key: "truthy (OPENAI_API_KEY example_context)"
    by (simp add: OPENAI_API_KEY_def example_context_def)
  show ?thesis
    using key
      user_text_is_sent_verbatim [OF key, of "\<lparr>message = ascii ''2 + 2?''\<rparr>" completion_upstream
        "\<lparr>prompt = ascii ''why?'', model = JStr (ascii ''gpt-4'')\<rparr>" rate_limited_upstream]
    by simp
qed

section \<open>The result of askOpenAI\<close>

text \<open>
  C4. A fulfilled \<open>askOpenAI\<close> read its result from the body \<open>data\<close> of the upstream
  response: the \<open>promptTokens\<close>, \<open>completionTokens\<close> and \<open>totalTokens\<close> of its
  \<open>usage\<close> are the \<open>prompt_tokens\<close>, \<open>completion_tokens\<close> and \<open>total_tokens\<close>
  of \<open>data.usage\<close>, unchanged. Hence when the upstream total is the sum of the upstream
  prompt and completion counts, the same holds of the result.
\<close>

theorem usage_is_passed_through:
  assumes "fst (askOpenAI args ctx fetch) = Fulfilled result"
  shows "\<exists>response data.
      fetch (ask_request (prompt args) (model_or_default (model args)) (OPENAI_API_KEY ctx))
        = Fulfilled response \<and>
      json_body response = Fulfilled data \<and>
      dot (dot (Inr result) (ascii ''usage'')) (ascii ''promptTokens'')
        = dot (dot (Inr data) (ascii ''usage'')) (ascii ''prompt_tokens'') \<and>
      dot (dot (Inr result) (ascii ''usage'')) (ascii ''completionTokens'')
        = dot (dot (Inr data) (ascii ''usage'')) (ascii ''completion_tokens'') \<and>
      dot (dot (Inr result) (ascii ''usage'')) (ascii ''totalTokens'')
        = dot (dot (Inr data) (ascii ''usage'')) (ascii ''total_tokens'') \<and>
      (total_is_sum
         (dot (dot (Inr data) (ascii ''usage'')) (ascii ''prompt_tokens''))
         (dot (dot (Inr data) (ascii ''usage'')) (ascii ''completion_tokens''))
         (dot (dot (Inr data) (ascii ''usage'')) (ascii ''total_tokens''))
       \<longrightarrow>
       total_is_sum
         (dot (dot (Inr result) (ascii ''usage'')) (ascii ''promptTokens''))
         (dot (dot (Inr result) (ascii ''usage'')) (ascii ''completionTokens''))
         (dot (dot (Inr result) (ascii ''usage'')) (ascii ''totalTokens'')))"
proof -
  from assms obtain response data where
    resp: "fetch (ask_request (prompt args) (model_or_default (model args)) (OPENAI_API_KEY ctx))
       = Fulfilled response"
    and data: "json_body response = Fulfilled data"
    and res: "ask_result (model_or_default (model args)) data = Inr result"
    by (rule ask_fulfilledE)
  from res obtain content p c t fr where
    p: "dot (dot (Inr data) (ascii ''usage'')) (ascii ''prompt_tokens'') = Inr p"
    and c: "dot (dot (Inr data) (ascii ''usage'')) (ascii ''completion_tokens'') = Inr c"
    and t: "dot (dot (Inr data) (ascii ''usage'')) (ascii ''total_tokens'') = Inr t"
    and shape: "result = JObj
       [(ascii ''text'', content),
        (ascii ''usage'', JObj
           [(ascii ''promptTokens'', p),
            (ascii ''completionTokens'', c),
            (ascii ''totalTokens'', t)]),
        (ascii ''metadata'', JObj
           [(ascii ''model'', model_or_default (model args)),
            (ascii ''finishReason'', fr)])]"
    by (rule ask_result_shape)
  have "dot (dot (Inr result) (ascii ''usage'')) (ascii ''promptTokens'') = Inr p"
    and "dot (dot (Inr result) (ascii ''usage'')) (ascii ''completionTokens'') = Inr c"
    and "dot (dot (Inr result) (ascii ''usage'')) (ascii ''totalTokens'') = Inr t"
    by (simp_all add: shape)
  with resp data p c t show ?thesis
    by simp
qed

theorem usage_is_passed_through_witness:
  "fst (askOpenAI \<lparr>prompt = ascii ''hello'', model = JUndefined\<rparr> example_context
          completion_upstream)
     = Fulfilled (JObj
       [(ascii ''text'', JStr (ascii ''hi'')),
        (ascii ''usage'', JObj
           [(ascii ''promptTokens'', JNum 9),
            (ascii ''completionTokens'', JNum 12),
            (ascii ''totalTokens'', JNum 21)]),
        (ascii ''metadata'', JObj
           [(ascii ''model'', JStr (ascii ''gpt-3.5-turbo'')),
            (ascii ''finishReason'', JStr (ascii ''stop''))])])
   \<and> total_is_sum
         (dot (dot (Inr completion_body) (ascii ''usage'')) (ascii ''prompt_tokens''))
         (dot (dot (Inr completion_body) (ascii ''usage'')) (ascii ''completion_tokens''))
         (dot (dot (Inr completion_body) (ascii ''usage'')) (ascii ''total_tokens''))
   \<and> (\<exists>response.
        completion_upstream (ask_request (ascii ''hello'') (JStr (ascii ''gpt-3.5-turbo''))
          (JStr (ascii ''sk-test''))) = Fulfilled response \<and>
        json_body response = Fulfilled completion_body)
   \<and> total_is_sum (Inr (JNum 9)) (Inr (JNum 12)) (Inr (JNum 21))"
proof -
  let ?result = "JObj
       [(ascii ''text'', JStr (ascii ''hi'')),
        (ascii ''usage'', JObj
           [(ascii ''promptTokens'', JNum 9),
            (ascii ''completionTokens'', JNum 12),
            (ascii ''totalTokens'', JNum 21)]),
        (ascii ''metadata'', JObj
           [(ascii ''model'', JStr (ascii ''gpt-3.5-turbo'')),
            (ascii ''finishReason'', JStr (ascii ''stop''))])]"
  have run: "fst (askOpenAI \<lparr>prompt = ascii ''hello'', model = JUndefined\<rparr> example_context
          completion_upstream) = Fulfilled ?result"
    by (simp add: askOpenAI_def ask_try_def ask_result_def model_or_default_def
        OPENAI_API_KEY_def example_context_def completion_upstream_def completion_body_def
        ok_def Let_def)
  from usage_is_passed_through [OF run] obtain response data where
    resp: "completion_upstream
        (ask_request (prompt \<lparr>prompt = ascii ''hello'', model = JUndefined\<rparr>)
          (model_or_default (model \<lparr>prompt = ascii ''hello'', model = JUndefined\<rparr>))
          (OPENAI_API_KEY example_context)) = Fulfilled response"
    and data: "json_body response = Fulfilled data"
    and sum: "total_is_sum
         (dot (dot (Inr data) (ascii ''usage'')) (ascii ''prompt_tokens''))
         (dot (dot (Inr data) (ascii ''usage'')) (ascii ''completion_tokens''))
         (dot (dot (Inr data) (ascii ''usage'')) (ascii ''total_tokens''))
       \<longrightarrow>
       total_is_sum
         (dot (dot (Inr ?result) (ascii ''usage'')) (ascii ''promptTokens''))
         (dot (dot (Inr ?result) (ascii ''usage'')) (ascii ''completionTokens''))
         (dot (dot (Inr ?result) (ascii ''usage'')) (ascii ''totalTokens''))"
    by blast
  from resp data have same: "data = completion_body"
    by (auto simp: completion_upstream_def)
  have upstream_sum: "total_is_sum
         (dot (dot (Inr completion_body) (ascii ''usage'')) (ascii ''prompt_tokens''))
         (dot (dot (Inr completion_body) (ascii ''usage'')) (ascii ''completion_tokens''))
         (dot (dot (Inr completion_body) (ascii ''usage'')) (ascii ''total_tokens''))"
    by (simp add: completion_body_def total_is_sum_def)
  with sum same have "total_is_sum (Inr (JNum 9)) (Inr (JNum 12)) (Inr (JNum 21))"
    by simp
  moreover have "\<exists>response.
        completion_upstream (ask_request (ascii ''hello'') (JStr (ascii ''gpt-3.5-turbo''))
          (JStr (ascii ''sk-test''))) = Fulfilled response \<and>
        json_body response = Fulfilled completion_body"
    by (simp add: completion_upstream_def)
  ultimately show ?thesis
    using run upstream_sum by simp
qed

text \<open>
  C5. In a fulfilled \<open>askOpenAI\<close>, \<open>metadata.model\<close> is the model of the call:
  \<open>gpt-3.5-turbo\<close> when the query omits the \<open>model\<close> argument, and the
  \<open>model\<close> argument itself when the query gives one. This holds whatever the upstream
  response says, so the value is not read from it.
\<close>

theorem metadata_model_is_requested_model:
  assumes "fst (askOpenAI args ctx fetch) = Fulfilled result"
  shows "(model args = JUndefined \<longrightarrow>
            dot (dot (Inr result) (ascii ''metadata'')) (ascii ''model'')
              = Inr (JStr (ascii ''gpt-3.5-turbo'')))
       \<and> (model args \<noteq> JUndefined \<longrightarrow>
            dot (dot (Inr result) (ascii ''metadata'')) (ascii ''model'')
              = Inr (model args))"
proof -
  from assms obtain response data where
    "ask_result (model_or_default (model args)) data = Inr result"
    by (rule ask_fulfilledE)
  then obtain content p c t fr where
    shape: "result = JObj
       [(ascii ''text'', content),
        (ascii ''usage'', JObj
           [(ascii ''promptTokens'', p),
            (ascii ''completionTokens'', c),
            (ascii ''totalTokens'', t)]),
        (ascii ''metadata'', JObj
           [(ascii ''model'', model_or_default (model args)),
            (ascii ''finishReason'', fr)])]"
    by (rule ask_result_shape)
  show ?thesis
    by (simp add: shape model_or_default_def)
qed

theorem metadata_model_is_requested_model_witness:
  "get_prop completion_body (ascii ''model'') = Inr (JStr (ascii ''gpt-3.5-turbo-0125''))
   \<and> model \<lparr>prompt = ascii ''hello'', model = JUndefined\<rparr> = JUndefined
   \<and> fst (askOpenAI \<lparr>prompt = ascii ''hello'', model = JUndefined\<rparr> example_context
          completion_upstream)
     = Fulfilled (JObj
       [(ascii ''text'', JStr (ascii ''hi'')),
        (ascii ''usage'', JObj
           [(ascii ''promptTokens'', JNum 9),
            (ascii ''completionTokens'', JNum 12),
            (ascii ''totalTokens'', JNum 21)]),
        (ascii ''metadata'', JObj
           [(ascii ''model'', JStr (ascii ''gpt-3.5-turbo'')),
            (ascii ''finishReason'', JStr (ascii ''stop''))])])
   \<and> dot (dot (Inr (JObj
       [(ascii ''text'', JStr (ascii ''hi'')),
        (ascii ''usage'', JObj
           [(ascii ''promptTokens'', JNum 9),
            (ascii ''completionTokens'', JNum 12),
            (ascii ''totalTokens'', JNum 21)]),
        (ascii ''metadata'', JObj
           [(ascii ''model'', JStr (ascii ''gpt-3.5-turbo'')),
            (ascii ''finishReason'', JStr (ascii ''stop''))])])) (ascii ''metadata''))
        (ascii ''model'') = Inr (JStr (ascii ''gpt-3.5-turbo''))
   \<and> model \<lparr>prompt = ascii ''hello'', model = JStr (ascii ''gpt-4'')\<rparr> \<noteq> JUndefined
   \<and> fst (askOpenAI \<lparr>prompt = ascii ''hello'', model = JStr (ascii ''gpt-4'')\<rparr>
          example_context completion_upstream)
     = Fulfilled (JObj
       [(ascii ''text'', JStr (ascii ''hi'')),
        (ascii ''usage'', JObj
           [(ascii ''promptTokens'', JNum 9),
            (ascii ''completionTokens'', JNum 12),
            (ascii ''totalTokens'', JNum 21)]),
        (ascii ''metadata'', JObj
           [(ascii ''model'', JStr (ascii ''gpt-4'')),
            (ascii ''finishReason'', JStr (ascii ''stop''))])])
   \<and> dot (dot (Inr (JObj
       [(ascii ''text'', JStr (ascii ''hi'')),
        (ascii ''usage'', JObj
           [(ascii ''promptTokens'', JNum 9),
            (ascii ''completionTokens'', JNum 12),
            (ascii ''totalTokens'', JNum 21)]),
        (ascii ''metadata'', JObj
           [(ascii ''model'', JStr (ascii ''gpt-4'')),
            (ascii ''finishReason'', JStr (ascii ''stop''))])])) (ascii ''metadata''))
        (ascii ''model'')
     = Inr (model \<lparr>prompt = ascii ''hello'', model = JStr (ascii ''gpt-4'')\<rparr>)"
proof -
  have upstream_model:
    "get_prop completion_body (ascii ''model'') = Inr (JStr (ascii ''gpt-3.5-turbo-0125''))"
    by (simp add: completion_body_def)
  have omitted: "model \<lparr>prompt = ascii ''hello'', model = JUndefined\<rparr> = JUndefined"
    by simp
  have run_default:
    "fst (askOpenAI \<lparr>prompt = ascii ''hello'', model = JUndefined\<rparr> example_context
          completion_upstream)
     = Fulfilled (JObj
       [(ascii ''text'', JStr (ascii ''hi'')),
        (ascii ''usage'', JObj
           [(ascii ''promptTokens'', JNum 9),
            (ascii ''completionTokens'', JNum 12),
            (ascii ''totalTokens'', JNum 21)]),
        (ascii ''metadata'', JObj
           [(ascii ''model'', JStr (ascii ''gpt-3.5-turbo'')),
            (ascii ''finishReason'', JStr (ascii ''stop''))])])"
    by (simp add: askOpenAI_def ask_try_def ask_result_def model_or_default_def
        OPENAI_API_KEY_def example_context_def completion_upstream_def completion_body_def
        ok_def Let_def)
  have given: "model \<lparr>prompt = ascii ''hello'', model = JStr (ascii ''gpt-4'')\<rparr> \<noteq> JUndefined"
    by simp
  have run_given:
    "fst (askOpenAI \<lparr>prompt = ascii ''hello'', model = JStr (ascii ''gpt-4'')\<rparr>
          example_context completion_upstream)
     = Fulfilled (JObj
       [(ascii ''text'', JStr (ascii ''hi'')),
        (ascii ''usage'', JObj
           [(ascii ''promptTokens'', JNum 9),
            (ascii ''completionTokens'', JNum 12),
            (ascii ''totalTokens'', JNum 21)]),
        (ascii ''metadata'', JObj
           [(ascii ''model'', JStr (ascii ''gpt-4'')),
            (ascii ''finishReason'', JStr (ascii ''stop''))])])"
    by (simp add: askOpenAI_def ask_try_def ask_result_def model_or_default_def
        OPENAI_API_KEY_def example_context_def completion_upstream_def completion_body_def
        ok_def Let_def)
  note echoed_default =
    metadata_model_is_requested_model [OF run_default, THEN conjunct1, THEN mp, OF omitted]
  note echoed_given =
    metadata_model_is_requested_model [OF run_given, THEN conjunct2, THEN mp, OF given]
  from upstream_model omitted run_default echoed_default given run_given echoed_given
  show ?thesis
    by (intro conjI)
qed

section \<open>CORS preflight\<close>

text \<open>
  C6, as amended. For every request whose method is \<open>OPTIONS\<close>, whatever its path, the
  handler answers by itself with status 204, no body and four CORS headers (allowed
  origin, allowed methods, allowed headers, maximal age). The answer does not depend on
  the GraphQL server, which is not called, and there is no effect, so no outbound call.
\<close>

theorem options_is_answered_directly:
  assumes "http_method req = ascii ''OPTIONS''"
  shows "handler_fetch yoga_fetch req environment =
     (Fulfilled
        \<lparr>resp_status = 204,
         resp_body = None,
         resp_headers =
           [(ascii ''Access-Control-Allow-Origin'', ascii ''*''),
            (ascii ''Access-Control-Allow-Methods'', ascii ''GET, POST, OPTIONS''),
            (ascii ''Access-Control-Allow-Headers'',
               ascii ''Content-Type, Authorization, Apollo-Require-Preflight''),
            (ascii ''Access-Control-Max-Age'', ascii ''86400'')]\<rparr>,
      [])"
  using assms by (simp add: handler_fetch_def preflight_response_def)

theorem options_is_answered_directly_witness:
  "http_method options_request = ascii ''OPTIONS''
   \<and> handler_fetch idle_yoga options_request [] =
     (Fulfilled
        \<lparr>resp_status = 204,
         resp_body = None,
         resp_headers =
           [(ascii ''Access-Control-Allow-Origin'', ascii ''*''),
            (ascii ''Access-Control-Allow-Methods'', ascii ''GET, POST, OPTIONS''),
            (ascii ''Access-Control-Allow-Headers'',
               ascii ''Content-Type, Authorization, Apollo-Require-Preflight''),
            (ascii ''Access-Control-Max-Age'', ascii ''86400'')]\<rparr>,
      [])"
proof -
  have preflight: "http_method options_request = ascii ''OPTIONS''"
    by (simp add: options_request_def)
  show ?thesis
    using preflight options_is_answered_directly [OF preflight, of idle_yoga "[]"]
    by simp
qed

text \<open>
  C6 as stated asks for five CORS headers. The response to an \<open>OPTIONS\<close> request
  has four.
\<close>

theorem options_response_has_not_five_headers:
  "fst (handler_fetch idle_yoga options_request []) = Fulfilled preflight_response
   \<and> length (resp_headers preflight_response) = 4
   \<and> length (resp_headers preflight_response) \<noteq> 5"
  by (simp add: handler_fetch_def options_request_def preflight_response_def)

end
